theory Spec2Isabelle
  imports Complex_Main "HOL-Library.Sublist" "HOL-Library.Log_Nat"
begin

section \<open>Python values\<close>

text \<open>
  \<^verbatim>\<open>streamlit_app.py\<close> is a page script: it reads widget state, calls one backend
  method and renders the returned dictionary. The values it handles are the ones a
  response dictionary may hold: \<^verbatim>\<open>None\<close>, booleans, integers, floats, strings, lists,
  tuples, dictionaries keyed by strings (the script looks fields up by name) and, for
  the objects that are none of these, datetimes. A dictionary is an association list in
  insertion order; a lookup takes the first binding of a key. A \<open>string\<close> is read as a
  sequence of characters, one \<open>char\<close> each.
\<close>

record datetime =
  year :: nat
  month :: nat
  day :: nat
  hour :: nat
  minute :: nat
  second :: nat
  microsecond :: nat

text \<open>A float is an IEEE 754 double: a finite value, given by the rational number it
  is, one of the two zeros (\<open>Finite 0\<close> is the positive one), an infinity or NaN.\<close>

datatype pyfloat = Finite rat | NegZero | PosInf | NegInf | NaN

datatype pyval =
    PNone
  | PBool bool
  | PInt int
  | PFloat pyfloat
  | PStr string
  | PList "pyval list"
  | PTuple "pyval list"
  | PDict "(string \<times> pyval) list"
  | PDatetime datetime

type_synonym pydict = "(string \<times> pyval) list"

text \<open>The exceptions the script can meet; \<open>OtherError\<close> is any other \<^verbatim>\<open>Exception\<close>
  raised by the backend, with its message.\<close>

datatype exn =
    KeyError string
  | TypeError
  | AttributeError
  | ZeroDivisionError
  | OverflowError
  | ValueError
  | OtherError string

text \<open>Truth value testing, as \<^verbatim>\<open>if x:\<close> does it.\<close>

fun truthy :: "pyval \<Rightarrow> bool" where
  "truthy PNone = False"
| "truthy (PBool b) = b"
| "truthy (PInt i) = (i \<noteq> 0)"
| "truthy (PFloat x) = (x \<noteq> Finite 0 \<and> x \<noteq> NegZero)"
| "truthy (PStr s) = (s \<noteq> [])"
| "truthy (PList xs) = (xs \<noteq> [])"
| "truthy (PTuple xs) = (xs \<noteq> [])"
| "truthy (PDict kvs) = (kvs \<noteq> [])"
| "truthy (PDatetime d) = True"

text \<open>\<^verbatim>\<open>d.get(k, default)\<close> and \<^verbatim>\<open>d[k]\<close> on a dictionary.\<close>

definition dict_get :: "pydict \<Rightarrow> string \<Rightarrow> pyval \<Rightarrow> pyval" where
  "dict_get d k dflt = (case map_of d k of None \<Rightarrow> dflt | Some v \<Rightarrow> v)"

definition dict_item :: "pydict \<Rightarrow> string \<Rightarrow> exn + pyval" where
  "dict_item d k = (case map_of d k of None \<Rightarrow> Inl (KeyError k) | Some v \<Rightarrow> Inr v)"

text \<open>\<^verbatim>\<open>d[k] = v\<close>: an existing key keeps its place, a new key goes last.\<close>

fun dict_set :: "(string \<times> 'v) list \<Rightarrow> string \<Rightarrow> 'v \<Rightarrow> (string \<times> 'v) list" where
  "dict_set [] k v = [(k, v)]"
| "dict_set ((k', v') # d) k v = (if k' = k then (k, v) # d else (k', v') # dict_set d k v)"

text \<open>The same operations on a value that may not be a dictionary: \<^verbatim>\<open>x.get(k, default)\<close>
  and \<^verbatim>\<open>x.items()\<close> raise \<^verbatim>\<open>AttributeError\<close> on anything else, \<^verbatim>\<open>x[k]\<close> with a string
  key raises \<^verbatim>\<open>TypeError\<close>.\<close>

fun py_get :: "pyval \<Rightarrow> string \<Rightarrow> pyval \<Rightarrow> exn + pyval" where
  "py_get (PDict d) k dflt = Inr (dict_get d k dflt)"
| "py_get _ k dflt = Inl AttributeError"

fun py_items :: "pyval \<Rightarrow> exn + (string \<times> pyval) list" where
  "py_items (PDict d) = Inr d"
| "py_items _ = Inl AttributeError"

fun py_subscript :: "pyval \<Rightarrow> string \<Rightarrow> exn + pyval" where
  "py_subscript (PDict d) k = dict_item d k"
| "py_subscript _ k = Inl TypeError"

text \<open>\<^verbatim>\<open>for x in v\<close>: a list or a tuple gives its elements, a string its characters, a
  dictionary its keys; nothing else is iterable.\<close>

fun py_iter :: "pyval \<Rightarrow> exn + pyval list" where
  "py_iter (PList xs) = Inr xs"
| "py_iter (PTuple xs) = Inr xs"
| "py_iter (PStr s) = Inr (map (\<lambda>c. PStr [c]) s)"
| "py_iter (PDict d) = Inr (map (\<lambda>kv. PStr (fst kv)) d)"
| "py_iter _ = Inl TypeError"

section \<open>Rendered output\<close>

text \<open>
  Every \<^verbatim>\<open>st.*\<close> call is recorded as a widget, in the order the script makes the calls.
  An f-string is the list of its pieces: literal text, an interpolated value (its
  \<^verbatim>\<open>str()\<close>), an emoji (the source writes them as characters outside ASCII; here each
  has a name). Columns, containers, tabs and the spinner only place widgets and are
  flattened; an expander keeps its content. The page configuration and the style sheet
  (lines 19-70) render no widget and are left out.
\<close>

datatype emoji =
    ChartUp | Gear | Arrows | CrossMark | CheckMark | BarChart
  | GreenCircle | YellowCircle | RedCircle
  | Rocket | Wastebasket | Clipboard | Bulb | Warning | Target | Magnifier
  | Speech | Books | Robot | Prohibited | Memo | Key | Microscope | Page
  | Clock | InboxTray

datatype frag =
    Lit string
  | Val pyval
  | Emo emoji
  | Num nat
  | Fixed1 string
  | Mean1 "pyval list" nat
  | ExnStr exn
  | FormatExc exn

text \<open>\<open>Fixed1 s\<close> is the text \<open>s\<close> of a number printed with one decimal (\<^verbatim>\<open>:.1f\<close>).
  \<open>Mean1 vs n\<close> is the text of \<^verbatim>\<open>sum(vs) / n\<close> printed with one decimal: how \<^verbatim>\<open>sum\<close> adds
  floats up is the interpreter's (plain addition, or compensated since Python 3.12), so
  the digits are not fixed by the script and the expression is kept.
  \<open>ExnStr e\<close> is \<^verbatim>\<open>str(e)\<close>, \<open>FormatExc e\<close> is \<^verbatim>\<open>traceback.format_exc()\<close> while \<open>e\<close> is
  handled.\<close>

datatype json =
    JNull
  | JBool bool
  | JInt int
  | JReal pyfloat
  | JStr string
  | JArr "json list"
  | JObj "(string \<times> json) list"

datatype widget =
    Markdown "frag list"
  | HtmlBox string "frag list"
  | Write "frag list"
  | WriteObj pyval
  | Info "frag list"
  | Success "frag list"
  | WarningMsg "frag list"
  | ErrorMsg "frag list"
  | Metric "frag list" "frag list"
  | MetricObj "frag list" pyval
  | JsonView pyval
  | Code "frag list"
  | Image string
  | Checkbox string bool
  | TextInput string string
  | Button "frag list"
  | DownloadButton string json "frag list" string
  | Expander "frag list" "widget list"

text \<open>\<open>HtmlBox c t\<close> is \<^verbatim>\<open>st.markdown('<div class="c">t</div>', unsafe_allow_html=True)\<close>.
  What a piece of script has rendered, and the exception that stopped it, if any:\<close>

type_synonym ui = "widget list \<times> exn option"

definition emit :: "widget list \<Rightarrow> ui" where
  "emit ws = (ws, None)"

definition raise :: "exn \<Rightarrow> ui" where
  "raise e = ([], Some e)"

definition andthen :: "ui \<Rightarrow> ui \<Rightarrow> ui" where
  "andthen a b = (case snd a of None \<Rightarrow> (fst a @ fst b, snd b) | Some e \<Rightarrow> a)"

definition need :: "exn + 'a \<Rightarrow> ('a \<Rightarrow> ui) \<Rightarrow> ui" where
  "need r k = (case r of Inl e \<Rightarrow> raise e | Inr v \<Rightarrow> k v)"

definition expander :: "frag list \<Rightarrow> ui \<Rightarrow> ui" where
  "expander lbl body = ([Expander lbl (fst body)], snd body)"

fun foreach :: "('a \<Rightarrow> ui) \<Rightarrow> 'a list \<Rightarrow> ui" where
  "foreach f [] = emit []"
| "foreach f (x # xs) = andthen (f x) (foreach f xs)"

section \<open>The chat tab: rendering one response (lines 219-273)\<close>

definition display_failure :: "pydict \<Rightarrow> ui" where
  "display_failure response =
     andthen
       (emit [HtmlBox ''error-box''
                [Emo Prohibited, Lit '' '', Val (dict_get response ''message'' (PStr ''Query failed''))]])
       (if truthy (dict_get response ''suggestion'' PNone)
        then emit [Info [Emo Bulb, Lit '' '', Val (dict_get response ''suggestion'' PNone)]]
        else emit [])"

definition recommendation_color :: "pyval \<Rightarrow> emoji" where
  "recommendation_color recommendation =
     (if recommendation = PStr ''BUY'' then GreenCircle
      else if recommendation = PStr ''SELL'' then RedCircle
      else YellowCircle)"

definition risk_emoji :: "pyval \<Rightarrow> emoji" where
  "risk_emoji risk_level =
     (if risk_level = PStr ''Low'' then GreenCircle
      else if risk_level = PStr ''Medium'' then YellowCircle
      else RedCircle)"

definition display_metrics :: "pydict \<Rightarrow> ui" where
  "display_metrics response =
     andthen
       (need (dict_item response ''recommendation'') (\<lambda>recommendation.
          emit [Metric [Lit ''Recommendation'']
                  [Emo (recommendation_color recommendation), Lit '' '', Val recommendation]]))
    (andthen
       (need (dict_item response ''confidence'') (\<lambda>confidence.
          emit [Metric [Lit ''Confidence''] [Val confidence, Lit ''%'']]))
    (andthen
       (need (dict_item response ''position_size'') (\<lambda>position_size.
          emit [MetricObj [Lit ''Position Size''] position_size]))
       (need (dict_item response ''risk_level'') (\<lambda>risk_level.
          emit [Metric [Lit ''Risk Level'']
                  [Emo (risk_emoji risk_level), Lit '' '', Val risk_level]]))))"

definition display_key_factors :: "pydict \<Rightarrow> ui" where
  "display_key_factors response =
     (if truthy (dict_get response ''key_factors'' PNone)
      then andthen
             (emit [Markdown [Lit ''### '', Emo Key, Lit '' Key Factors'']])
             (need (dict_item response ''key_factors'') (\<lambda>key_factors.
                need (py_iter key_factors)
                  (foreach (\<lambda>factor. emit [Markdown [Lit ''- '', Val factor]]))))
      else emit [])"

definition display_agent_outputs :: "pyval \<Rightarrow> ui" where
  "display_agent_outputs detailed =
     need (py_get detailed ''agent_outputs'' PNone) (\<lambda>present.
       if truthy present
       then andthen
              (emit [Markdown [Lit ''#### Agent Outputs'']])
              (need (py_subscript detailed ''agent_outputs'') (\<lambda>agent_outputs.
                 need (py_items agent_outputs)
                   (foreach (\<lambda>(agent_name, agent_data).
                      emit [Markdown [Lit ''**'', Val (PStr agent_name), Lit ''**''],
                            JsonView agent_data]))))
       else emit [])"

definition display_document :: "nat \<times> pyval \<Rightarrow> ui" where
  "display_document = (\<lambda>(i, doc).
     need (py_get doc ''score'' (PStr ''N/A'')) (\<lambda>score.
       andthen
         (emit [Markdown [Lit ''**Document '', Num i, Lit ''** (Score: '', Val score, Lit '')'']])
         (need (py_get doc ''text'' (PStr '''')) (\<lambda>txt.
            emit [WriteObj txt, Markdown [Lit ''---'']]))))"

definition display_rag_documents :: "pyval \<Rightarrow> ui" where
  "display_rag_documents detailed =
     need (py_get detailed ''agent_outputs'' (PDict [])) (\<lambda>agent_outputs.
     need (py_get agent_outputs ''RAG_AGENT'' (PDict [])) (\<lambda>rag_agent.
     need (py_get rag_agent ''docs'' PNone) (\<lambda>present.
       if truthy present
       then andthen
              (emit [Markdown [Lit ''#### '', Emo Page, Lit '' Retrieved Documents'']])
              (need (py_subscript detailed ''agent_outputs'') (\<lambda>ao.
               need (py_subscript ao ''RAG_AGENT'') (\<lambda>ra.
               need (py_subscript ra ''docs'') (\<lambda>docs.
               need (py_iter docs) (\<lambda>ds.
                 foreach display_document (zip [1 ..< Suc (length ds)] ds))))))
       else emit [])))"

definition display_detailed :: "pydict \<Rightarrow> ui" where
  "display_detailed response =
     expander [Emo Microscope, Lit '' Detailed Analysis'']
       (let detailed = dict_get response ''detailed_analysis'' (PDict [])
        in andthen (display_agent_outputs detailed) (display_rag_documents detailed))"

definition display_success :: "pydict \<Rightarrow> ui" where
  "display_success response =
     andthen (emit [HtmlBox ''success-box'' [Emo CheckMark, Lit '' Analysis Complete'']])
    (andthen (display_metrics response)
    (andthen (emit [Markdown [Lit ''### '', Emo Memo, Lit '' Explanation'']])
    (andthen (need (dict_item response ''explanation'') (\<lambda>explanation.
                emit [WriteObj explanation]))
    (andthen (display_key_factors response)
             (display_detailed response)))))"

definition display_response :: "pydict \<Rightarrow> ui" where
  "display_response response =
     (if \<not> truthy (dict_get response ''success'' (PBool False))
      then display_failure response
      else display_success response)"

section \<open>Capture times\<close>

text \<open>\<^verbatim>\<open>datetime.now()\<close> gives a naive datetime (no time zone). \<^verbatim>\<open>%02d\<close> and its like print
  a number in decimal, padded with zeros to the width.\<close>

definition digit :: "nat \<Rightarrow> char" where
  "digit n = char_of (48 + n mod 10)"

fun decimal :: "nat \<Rightarrow> string" where
  "decimal n = (if n < 10 then [digit n] else decimal (n div 10) @ [digit n])"

declare decimal.simps [simp del]

definition zpad :: "nat \<Rightarrow> nat \<Rightarrow> string" where
  "zpad w n = replicate (w - length (decimal n)) (CHR ''0'') @ decimal n"


text \<open>\<^verbatim>\<open>strftime\<close> with the three formats the script uses: \<^verbatim>\<open>%H:%M:%S\<close>,
  \<^verbatim>\<open>%Y-%m-%d %H:%M:%S\<close> and \<^verbatim>\<open>%Y%m%d_%H%M%S\<close>.\<close>

definition strftime_HMS :: "datetime \<Rightarrow> string" where
  "strftime_HMS d = zpad 2 (hour d) @ '':'' @ zpad 2 (minute d) @ '':'' @ zpad 2 (second d)"




section \<open>Query records and the backend\<close>

record chat =
  timestamp :: datetime
  query :: string
  response :: pydict

text \<open>
  \<^verbatim>\<open>TradingAssistantSystem\<close> is imported from \<^verbatim>\<open>main\<close> and is not part of this source: its
  three entry points are parameters. A failure of the constructor or of
  \<^verbatim>\<open>_create_assistant\<close> is the raised exception's \<^verbatim>\<open>str()\<close>, which is all
  \<^verbatim>\<open>initialize_system\<close> keeps of it. \<open>sys_id\<close> is the identity of the object.
\<close>

record 'a trading_system =
  sys_id :: nat
  config :: pydict
  assistant :: 'a

record 'a backend =
  construct :: "(string \<times> string) list \<Rightarrow> string + pydict"
  create_assistant :: "pydict \<Rightarrow> string + 'a"
  process_query_sync :: "'a trading_system \<Rightarrow> string \<Rightarrow> (exn + pydict) \<times> 'a trading_system"

text \<open>\<^verbatim>\<open>st.session_state\<close> after \<^verbatim>\<open>init_session_state\<close> (lines 73-81); \<open>current_query\<close> is
  \<open>None\<close> while the key is absent.\<close>

record 'a session =
  system :: "'a trading_system option"
  chat_history :: "chat list"
  initialized :: bool
  current_query :: "string option"

definition init_session_state :: "'a session" where
  "init_session_state =
     \<lparr>system = None, chat_history = [], initialized = False, current_query = None\<rparr>"

section \<open>The chat tab: submitting a query (lines 205-279)\<close>

definition show_exception :: "exn \<Rightarrow> widget list" where
  "show_exception e =
     [ErrorMsg [Emo CrossMark, Lit '' Error: '', ExnStr e],
      Expander [Lit ''Error Details''] [Code [FormatExc e]]]"

text \<open>The body of the \<^verbatim>\<open>try\<close>: the call, the append, the display. The clock is read
  after the call has returned.\<close>

definition submit_query ::
    "'a backend \<Rightarrow> datetime \<Rightarrow> string \<Rightarrow> 'a session \<Rightarrow> 'a session \<times> widget list" where
  "submit_query B now user_query s =
     (case system s of
        None \<Rightarrow> (s, show_exception AttributeError)
      | Some sys \<Rightarrow>
          (case process_query_sync B sys user_query of
             (Inl e, sys') \<Rightarrow> (s\<lparr>system := Some sys'\<rparr>, show_exception e)
           | (Inr r, sys') \<Rightarrow>
               (s\<lparr>system := Some sys',
                  chat_history := chat_history s @
                    [\<lparr>timestamp = now, query = user_query, response = r\<rparr>]\<rparr>,
                fst (display_response r) @
                (case snd (display_response r) of
                   None \<Rightarrow> []
                 | Some e \<Rightarrow> show_exception e))))"

section \<open>The chat tab: recent queries (lines 282-296)\<close>

definition recent_entry :: "chat \<Rightarrow> ui" where
  "recent_entry c =
     expander [Emo Clock, Lit '' '', Lit (strftime_HMS (timestamp c)), Lit '' - '',
               Lit (take 50 (query c)), Lit ''...'']
       (andthen
          (emit [Write [Lit ''**Query:** '', Val (PStr (query c))]])
          (if truthy (dict_get (response c) ''success'' PNone)
           then andthen
                  (need (dict_item (response c) ''recommendation'') (\<lambda>r.
                     emit [Write [Lit ''**Recommendation:** '', Val r]]))
               (andthen
                  (need (dict_item (response c) ''confidence'') (\<lambda>k.
                     emit [Write [Lit ''**Confidence:** '', Val k, Lit ''%'']]))
                  (need (dict_item (response c) ''explanation'') (\<lambda>x.
                     emit [Write [Lit ''**Explanation:** '', Val x]])))
           else emit [Write [Lit ''**Status:** '',
                             Val (dict_get (response c) ''message'' (PStr ''Failed''))]]))"

text \<open>\<^verbatim>\<open>chat_history[-5:]\<close> is the whole list when it has fewer than five records.\<close>

definition last5 :: "'b list \<Rightarrow> 'b list" where
  "last5 h = drop (length h - 5) h"

definition recent_queries :: "chat list \<Rightarrow> ui" where
  "recent_queries h =
     (if h \<noteq> []
      then andthen
             (emit [Markdown [Lit ''---''],
                    Markdown [Lit ''### '', Emo Speech, Lit '' Recent Queries'']])
             (foreach recent_entry (rev (last5 h)))
      else emit [])"

section \<open>The analysis tab (lines 298-337)\<close>

text \<open>
  Rounding a real number to a double, to the nearest, a tie going to the even
  significand: 53 bits, the exponent of the last bit not below \<open>-1074\<close>; a result of
  \<open>2 ^ 1024\<close> or more is an infinity, a result of zero keeps the sign.
\<close>

definition floor_log2 :: "rat \<Rightarrow> int" where
  "floor_log2 a =
     (case quotient_of a of
        (p, q) \<Rightarrow> let d = bitlen p - bitlen q in if 2 powi d \<le> a then d else d - 1)"

definition round_half_even :: "rat \<Rightarrow> int" where
  "round_half_even x =
     (let f = \<lfloor>x\<rfloor>; r = x - of_int f
      in if r < 1 / 2 then f else if 1 / 2 < r then f + 1 else if even f then f else f + 1)"

definition round_double :: "rat \<Rightarrow> pyfloat" where
  "round_double x =
     (if x = 0 then Finite 0
      else let a = \<bar>x\<bar>;
               e = max (floor_log2 a - 52) (- 1074);
               y = of_int (round_half_even (a / 2 powi e)) * 2 powi e
           in if 2 ^ 1024 \<le> y then (if 0 < x then PosInf else NegInf)
              else if y = 0 then (if 0 < x then Finite 0 else NegZero)
              else Finite (if 0 < x then y else - y))"

text \<open>Numbers: \<^verbatim>\<open>bool\<close> is a subclass of \<^verbatim>\<open>int\<close>. An integer that meets a float is
  converted, and an integer too large for a double raises \<^verbatim>\<open>OverflowError\<close>.\<close>

fun as_number :: "pyval \<Rightarrow> (int + pyfloat) option" where
  "as_number (PInt i) = Some (Inl i)"
| "as_number (PBool b) = Some (Inl (if b then 1 else 0))"
| "as_number (PFloat x) = Some (Inr x)"
| "as_number _ = None"

definition int_to_float :: "int \<Rightarrow> exn + pyfloat" where
  "int_to_float i =
     (case round_double (of_int i) of
        PosInf \<Rightarrow> Inl OverflowError
      | NegInf \<Rightarrow> Inl OverflowError
      | x \<Rightarrow> Inr x)"

text \<open>\<^verbatim>\<open>a / n\<close> of an integer by a length: the quotient, rounded once.\<close>

definition int_truediv :: "int \<Rightarrow> nat \<Rightarrow> exn + pyfloat" where
  "int_truediv a n =
     (if n = 0 then Inl ZeroDivisionError
      else case round_double (of_int a / of_nat n) of
             PosInf \<Rightarrow> Inl OverflowError
           | NegInf \<Rightarrow> Inl OverflowError
           | x \<Rightarrow> Inr x)"

text \<open>The product of two floats.\<close>

fun is_zero :: "pyfloat \<Rightarrow> bool" where
  "is_zero (Finite x) = (x = 0)"
| "is_zero NegZero = True"
| "is_zero _ = False"

fun is_inf :: "pyfloat \<Rightarrow> bool" where
  "is_inf PosInf = True"
| "is_inf NegInf = True"
| "is_inf _ = False"

fun sign_bit :: "pyfloat \<Rightarrow> bool" where
  "sign_bit (Finite x) = (x < 0)"
| "sign_bit NegZero = True"
| "sign_bit NegInf = True"
| "sign_bit _ = False"

fun finite_value :: "pyfloat \<Rightarrow> rat" where
  "finite_value (Finite x) = x"
| "finite_value _ = 0"

definition fmul :: "pyfloat \<Rightarrow> pyfloat \<Rightarrow> pyfloat" where
  "fmul a b =
     (if a = NaN \<or> b = NaN then NaN
      else if is_inf a \<or> is_inf b
      then (if is_zero a \<or> is_zero b then NaN
            else if sign_bit a \<noteq> sign_bit b then NegInf else PosInf)
      else if is_zero a \<or> is_zero b
      then (if sign_bit a \<noteq> sign_bit b then NegZero else Finite 0)
      else round_double (finite_value a * finite_value b))"

text \<open>\<^verbatim>\<open>f"{x:.1f}"\<close>: the exact value of the double, rounded to the nearest number of
  tenths, a tie going to the even one; the sign is kept, also on a zero.\<close>

definition format_1f :: "pyfloat \<Rightarrow> string" where
  "format_1f x =
     (case x of
        NaN \<Rightarrow> ''nan''
      | PosInf \<Rightarrow> ''inf''
      | NegInf \<Rightarrow> ''-inf''
      | NegZero \<Rightarrow> ''-0.0''
      | Finite v \<Rightarrow>
          (if v < 0 then ''-'' else []) @
          decimal (nat (round_half_even (\<bar>v\<bar> * 10) div 10)) @ ''.'' @
          [digit (nat (round_half_even (\<bar>v\<bar> * 10)))])"

definition format_number_1f :: "int + pyfloat \<Rightarrow> exn + string" where
  "format_number_1f x =
     (case x of
        Inl i \<Rightarrow> (case int_to_float i of Inl e \<Rightarrow> Inl e | Inr f \<Rightarrow> Inr (format_1f f))
      | Inr f \<Rightarrow> Inr (format_1f f))"

definition successful_queries :: "chat list \<Rightarrow> chat list" where
  "successful_queries h = filter (\<lambda>c. truthy (dict_get (response c) ''success'' PNone)) h"

text \<open>\<^verbatim>\<open>(len(successful_queries) / len(chat_history) * 100) if chat_history else 0\<close>\<close>

definition success_rate :: "chat list \<Rightarrow> chat list \<Rightarrow> exn + (int + pyfloat)" where
  "success_rate successful h =
     (if h \<noteq> []
      then (case int_truediv (int (length successful)) (length h) of
              Inl e \<Rightarrow> Inl e
            | Inr q \<Rightarrow> Inr (Inr (fmul q (Finite 100))))
      else Inr (Inl 0))"

text \<open>\<^verbatim>\<open>sum(1 for c in successful_queries if c['response']['recommendation'] == label)\<close>\<close>

fun count_recommendation :: "string \<Rightarrow> chat list \<Rightarrow> exn + nat" where
  "count_recommendation label [] = Inr 0"
| "count_recommendation label (c # cs) =
     (case dict_item (response c) ''recommendation'' of
        Inl e \<Rightarrow> Inl e
      | Inr v \<Rightarrow>
          (case count_recommendation label cs of
             Inl e \<Rightarrow> Inl e
           | Inr n \<Rightarrow> Inr ((if v = PStr label then 1 else 0) + n)))"

text \<open>\<^verbatim>\<open>sum(c['response']['confidence'] for c in successful_queries)\<close>, from \<open>0\<close>: an
  integer while only integers were added, a float from the first float on. What is kept
  of a float total is that it is one; the exceptions do not depend on its value.\<close>

datatype total = IntTotal int | FloatTotal

definition add_total :: "total \<Rightarrow> pyval \<Rightarrow> exn + total" where
  "add_total t v =
     (case as_number v of
        None \<Rightarrow> Inl TypeError
      | Some (Inl i) \<Rightarrow>
          (case t of
             IntTotal a \<Rightarrow> Inr (IntTotal (a + i))
           | FloatTotal \<Rightarrow> (case int_to_float i of Inl e \<Rightarrow> Inl e | Inr x \<Rightarrow> Inr FloatTotal))
      | Some (Inr f) \<Rightarrow>
          (case t of
             IntTotal a \<Rightarrow> (case int_to_float a of Inl e \<Rightarrow> Inl e | Inr x \<Rightarrow> Inr FloatTotal)
           | FloatTotal \<Rightarrow> Inr FloatTotal))"

fun sum_confidence :: "total \<Rightarrow> chat list \<Rightarrow> exn + total" where
  "sum_confidence acc [] = Inr acc"
| "sum_confidence acc (c # cs) =
     (case dict_item (response c) ''confidence'' of
        Inl e \<Rightarrow> Inl e
      | Inr v \<Rightarrow>
          (case add_total acc v of
             Inl e \<Rightarrow> Inl e
           | Inr acc' \<Rightarrow> sum_confidence acc' cs))"

text \<open>The exception of \<^verbatim>\<open>total / n\<close> for a length \<open>n\<close>, if it raises.\<close>

definition total_truediv :: "total \<Rightarrow> nat \<Rightarrow> exn option" where
  "total_truediv t n =
     (case t of
        IntTotal a \<Rightarrow> (case int_truediv a n of Inl e \<Rightarrow> Some e | Inr x \<Rightarrow> None)
      | FloatTotal \<Rightarrow>
          (case int_to_float (int n) of
             Inl e \<Rightarrow> Some e
           | Inr x \<Rightarrow> if n = 0 then Some ZeroDivisionError else None))"

definition average_confidence :: "chat list \<Rightarrow> ui" where
  "average_confidence successful =
     need (sum_confidence (IntTotal 0) successful) (\<lambda>tot.
       case total_truediv tot (length successful) of
         Some e \<Rightarrow> raise e
       | None \<Rightarrow>
           emit [Metric [Lit ''Average Confidence'']
                   [Mean1 (map (\<lambda>c. dict_get (response c) ''confidence'' PNone) successful)
                      (length successful),
                    Lit ''%'']])"

definition recommendation_distribution :: "chat list \<Rightarrow> ui" where
  "recommendation_distribution successful =
     andthen
       (emit [Markdown [Lit ''#### '', Emo BarChart, Lit '' Recommendation Distribution'']])
       (need (count_recommendation ''BUY'' successful) (\<lambda>buy_count.
        need (count_recommendation ''SELL'' successful) (\<lambda>sell_count.
        need (count_recommendation ''HOLD'' successful) (\<lambda>hold_count.
          andthen
            (emit [MetricObj [Emo GreenCircle, Lit '' BUY''] (PInt (int buy_count)),
                   MetricObj [Emo RedCircle, Lit '' SELL''] (PInt (int sell_count)),
                   MetricObj [Emo YellowCircle, Lit '' HOLD''] (PInt (int hold_count))])
            (average_confidence successful)))))"

definition analysis_tab :: "chat list \<Rightarrow> ui" where
  "analysis_tab h =
     andthen
       (emit [Markdown [Lit ''### '', Emo ChartUp, Lit '' Analysis Dashboard'']])
       (if h \<noteq> []
        then andthen
               (emit [MetricObj [Lit ''Total Queries''] (PInt (int (length h))),
                      MetricObj [Lit ''Successful''] (PInt (int (length (successful_queries h))))])
            (andthen
               (need (success_rate (successful_queries h) h) (\<lambda>rate.
                need (format_number_1f rate) (\<lambda>shown.
                  emit [Metric [Lit ''Success Rate''] [Fixed1 shown, Lit ''%'']])))
               (if successful_queries h \<noteq> []
                then recommendation_distribution (successful_queries h)
                else emit []))
        else emit [Info [Emo BarChart,
                         Lit '' No analysis data yet. Start by asking some trading questions!'']])"

section \<open>The history tab and the export (lines 339-380)\<close>










section \<open>Initialising the backend (lines 84-97)\<close>

text \<open>
  What lives outside the session: the process environment, the number of
  \<^verbatim>\<open>TradingAssistantSystem\<close> objects constructed so far (the next object's identity), and
  the table of \<^verbatim>\<open>st.cache_resource\<close>, which keeps the value returned for each tuple of
  arguments.
\<close>

record 'a world =
  environ :: "(string \<times> string) list"
  constructed :: nat
  resource_cache :: "bool \<times> bool \<times> string \<Rightarrow> ('a trading_system option \<times> string option) option"

text \<open>The function body: the pair \<^verbatim>\<open>(system, None)\<close>, or \<^verbatim>\<open>(None, str(e))\<close>.\<close>

definition initialize_system_body ::
    "'a backend \<Rightarrow> bool \<Rightarrow> bool \<Rightarrow> string \<Rightarrow> 'a world
     \<Rightarrow> ('a trading_system option \<times> string option) \<times> 'a world" where
  "initialize_system_body B use_qdrant qdrant_local collection_name w =
     (let env = dict_set
                  (dict_set (environ w) ''USE_QDRANT'' (if use_qdrant then ''true'' else ''false''))
                  ''QDRANT_LOCAL'' (if qdrant_local then ''true'' else ''false'');
          w' = w\<lparr>environ := env, constructed := Suc (constructed w)\<rparr>
      in case construct B env of
           Inl msg \<Rightarrow> ((None, Some msg), w')
         | Inr cfg \<Rightarrow>
             (case create_assistant B (dict_set cfg ''qdrant_collection'' (PStr collection_name)) of
                Inl msg \<Rightarrow> ((None, Some msg), w')
              | Inr a \<Rightarrow>
                  ((Some \<lparr>sys_id = constructed w,
                          config = dict_set cfg ''qdrant_collection'' (PStr collection_name),
                          assistant = a\<rparr>, None), w')))"

text \<open>The decorated function: a call whose arguments are in the table returns the stored
  value and does not run the body.\<close>

definition initialize_system ::
    "'a backend \<Rightarrow> bool \<Rightarrow> bool \<Rightarrow> string \<Rightarrow> 'a world
     \<Rightarrow> ('a trading_system option \<times> string option) \<times> 'a world" where
  "initialize_system B use_qdrant qdrant_local collection_name w =
     (case resource_cache w (use_qdrant, qdrant_local, collection_name) of
        Some r \<Rightarrow> (r, w)
      | None \<Rightarrow>
          (let (r, w') = initialize_system_body B use_qdrant qdrant_local collection_name w
           in (r, w'\<lparr>resource_cache :=
                       (resource_cache w')((use_qdrant, qdrant_local, collection_name) \<mapsto> r)\<rparr>)))"

section \<open>One run of the script\<close>

text \<open>The widget state of one run, and the two readings of the clock (line 213, line 376).\<close>

record inputs =
  use_qdrant :: bool
  qdrant_local :: bool
  collection_name :: string
  initialize_clicked :: bool
  clear_clicked :: bool
  view_config_clicked :: bool
  example_clicked :: "string \<Rightarrow> bool"
  user_query :: string
  submit_clicked :: bool
  detail_clicked :: "nat \<Rightarrow> bool"
  export_clicked :: bool
  clock_submit :: datetime
  clock_export :: datetime










text \<open>Lines 187-296: the chat tab. The form, a submission if there is one, the recent
  queries.\<close>

definition chat_tab :: "'a backend \<Rightarrow> inputs \<Rightarrow> 'a session \<Rightarrow> 'a session \<times> ui" where
  "chat_tab B inp s =
     (let default_query = (case current_query s of None \<Rightarrow> [] | Some q \<Rightarrow> q);
          s1 = (if default_query \<noteq> [] then s\<lparr>current_query := None\<rparr> else s);
          form = [Markdown [Lit ''### Ask Your Trading Question''],
                  TextInput ''Enter your question:'' default_query,
                  Button [Emo Rocket, Lit '' Analyze'']]
      in case (if submit_clicked inp \<and> user_query inp \<noteq> []
               then submit_query B (clock_submit inp) (user_query inp) s1
               else (s1, [])) of
           (s2, shown) \<Rightarrow> (s2, andthen (emit (form @ shown)) (recent_queries (chat_history s2))))"



section \<open>Reading the output\<close>

text \<open>What the properties below observe in a rendered page: the labels of the metrics
  (also inside an expander), the query an expander of the recent queries opens with,
  and the query of a line of the history tab.\<close>

fun metric_labels :: "widget \<Rightarrow> frag list list" where
  "metric_labels (Metric lbl v) = [lbl]"
| "metric_labels (MetricObj lbl v) = [lbl]"
| "metric_labels (Expander lbl ws) = concat (map metric_labels ws)"
| "metric_labels _ = []"

fun recent_shown :: "widget \<Rightarrow> string list" where
  "recent_shown (Expander lbl (Write [Lit l, Val (PStr q)] # body)) =
     (if l = ''**Query:** '' then [q] else [])"
| "recent_shown _ = []"








text \<open>A sequence of calls of \<^verbatim>\<open>initialize_system\<close>, each with its own arguments.\<close>

fun initialize_calls :: "'a backend \<Rightarrow> (bool \<times> bool \<times> string) list \<Rightarrow> 'a world \<Rightarrow> 'a world" where
  "initialize_calls B [] w = w"
| "initialize_calls B ((u, l, c) # ks) w = initialize_calls B ks (snd (initialize_system B u l c w))"



section \<open>Properties\<close>

subsection \<open>Sequencing\<close>

lemma emit_simps: "fst (emit ws) = ws" "snd (emit ws) = None"
  by (simp_all add: emit_def)

lemma raise_simps: "fst (raise e) = []" "snd (raise e) = Some e"
  by (simp_all add: raise_def)

lemma need_simps: "need (Inl e) k = raise e" "need (Inr v) k = k v"
  by (simp_all add: need_def)

lemma andthen_emit: "andthen (emit ws) b = (ws @ fst b, snd b)"
  by (simp add: andthen_def emit_def)

lemma fst_andthen:
  "fst (andthen a b) = (case snd a of None \<Rightarrow> fst a @ fst b | Some e \<Rightarrow> fst a)"
  by (simp add: andthen_def split: option.splits)

lemma snd_andthen:
  "snd (andthen a b) = (case snd a of None \<Rightarrow> snd b | Some e \<Rightarrow> Some e)"
  by (simp add: andthen_def split: option.splits)

subsection \<open>A response that reports a failure\<close>



subsection \<open>The recommendation indicator\<close>

text \<open>
  C5. For a response whose \<open>success\<close> is truthy and whose \<open>recommendation\<close> is
  \<open>BUY\<close>, \<open>SELL\<close> or \<open>HOLD\<close>, the page shows, right after the success box, the
  Recommendation metric with the indicator of the fixed mapping: green for \<open>BUY\<close>,
  red for \<open>SELL\<close>, yellow for \<open>HOLD\<close>.
\<close>

theorem recommendation_indicator:
  assumes "map_of r ''success'' = Some v" and "truthy v"
    and "map_of r ''recommendation'' = Some (PStr x)"
    and "x \<in> {''BUY'', ''SELL'', ''HOLD''}"
  shows "\<exists>rest. fst (display_response r) =
           HtmlBox ''success-box'' [Emo CheckMark, Lit '' Analysis Complete''] #
           Metric [Lit ''Recommendation'']
             [Emo (if x = ''BUY'' then GreenCircle
                   else if x = ''SELL'' then RedCircle
                   else YellowCircle),
              Lit '' '', Val (PStr x)] # rest"
proof -
  from assms(1,2) have ok: "truthy (dict_get r ''success'' (PBool False))"
    by (simp add: dict_get_def)
  have item: "dict_item r ''recommendation'' = Inr (PStr x)"
    using assms(3) by (simp add: dict_item_def)
  have metrics: "\<exists>rest. fst (display_metrics r) =
      Metric [Lit ''Recommendation''] [Emo (recommendation_color (PStr x)), Lit '' '', Val (PStr x)] # rest"
    by (simp add: display_metrics_def item need_simps andthen_emit)
  then obtain rest where m: "fst (display_metrics r) =
      Metric [Lit ''Recommendation''] [Emo (recommendation_color (PStr x)), Lit '' '', Val (PStr x)] # rest"
    by blast
  have "\<exists>rest'. fst (display_success r) =
      HtmlBox ''success-box'' [Emo CheckMark, Lit '' Analysis Complete''] #
      Metric [Lit ''Recommendation''] [Emo (recommendation_color (PStr x)), Lit '' '', Val (PStr x)] # rest'"
    by (simp add: display_success_def andthen_emit fst_andthen m split: option.splits)
  then show ?thesis
    using ok by (auto simp add: display_response_def recommendation_color_def)
qed

theorem recommendation_indicator_witness:
  "fst (display_response [(''success'', PBool True), (''recommendation'', PStr ''SELL'')]) =
     [HtmlBox ''success-box'' [Emo CheckMark, Lit '' Analysis Complete''],
      Metric [Lit ''Recommendation''] [Emo RedCircle, Lit '' '', Val (PStr ''SELL'')]]"
  using recommendation_indicator [of "[(''success'', PBool True), (''recommendation'', PStr ''SELL'')]"
      "PBool True" "''SELL''"]
  by (simp add: display_response_def display_success_def display_metrics_def dict_get_def dict_item_def
        need_def andthen_def emit_def raise_def)

subsection \<open>A record without a truthy success is a failure everywhere\<close>




subsection \<open>Exceptions of a submission\<close>

text \<open>
  C7. An exception raised by \<open>process_query_sync\<close> (or by reaching for it on a missing
  system), or by the rendering of its response, is caught where the call is made: what
  was rendered so far is followed by the error message and by the traceback inside the
  expander \<open>Error Details\<close>. The backend has been called once, and a record already
  appended stays. Nothing of the submission reaches the rest of the chat tab: an
  exception of the tab is one of the recent queries.
\<close>

theorem submission_exception_caught:
  "(system s = None \<longrightarrow>
      submit_query B now q s =
        (s, [ErrorMsg [Emo CrossMark, Lit '' Error: '', ExnStr AttributeError],
             Expander [Lit ''Error Details''] [Code [FormatExc AttributeError]]])) \<and>
   (system s = Some sys \<and> process_query_sync B sys q = (Inl e, sys') \<longrightarrow>
      submit_query B now q s =
        (s\<lparr>system := Some sys'\<rparr>,
         [ErrorMsg [Emo CrossMark, Lit '' Error: '', ExnStr e],
          Expander [Lit ''Error Details''] [Code [FormatExc e]]])) \<and>
   (system s = Some sys \<and> process_query_sync B sys q = (Inr r, sys') \<and>
    snd (display_response r) = Some e \<longrightarrow>
      submit_query B now q s =
        (s\<lparr>system := Some sys',
           chat_history := chat_history s @ [\<lparr>timestamp = now, query = q, response = r\<rparr>]\<rparr>,
         fst (display_response r) @
         [ErrorMsg [Emo CrossMark, Lit '' Error: '', ExnStr e],
          Expander [Lit ''Error Details''] [Code [FormatExc e]]])) \<and>
   snd (snd (chat_tab B inp s)) = snd (recent_queries (chat_history (fst (chat_tab B inp s))))"
proof -
  have tab: "snd (snd (chat_tab B inp s)) = snd (recent_queries (chat_history (fst (chat_tab B inp s))))"
    by (simp add: chat_tab_def Let_def andthen_emit split: prod.splits)
  show ?thesis
    by (simp add: submit_query_def show_exception_def tab)
qed

theorem submission_exception_caught_witness:
  "submit_query
     \<lparr>construct = (\<lambda>env. Inr []), create_assistant = (\<lambda>cfg. Inr ()),
      process_query_sync = (\<lambda>sys q. (Inr [(''success'', PBool True)], sys))\<rparr>
     \<lparr>year = 2024, month = 3, day = 9, hour = 14, minute = 5, second = 7, microsecond = 0\<rparr>
     ''Analyze Tesla stock''
     \<lparr>system = Some \<lparr>sys_id = 0, config = [], assistant = ()\<rparr>, chat_history = [],
      initialized = True, current_query = None\<rparr> =
   (\<lparr>system = Some \<lparr>sys_id = 0, config = [], assistant = ()\<rparr>,
     chat_history =
       [\<lparr>timestamp = \<lparr>year = 2024, month = 3, day = 9, hour = 14, minute = 5, second = 7,
                      microsecond = 0\<rparr>,
         query = ''Analyze Tesla stock'', response = [(''success'', PBool True)]\<rparr>],
     initialized = True, current_query = None\<rparr>,
    [HtmlBox ''success-box'' [Emo CheckMark, Lit '' Analysis Complete''],
     ErrorMsg [Emo CrossMark, Lit '' Error: '', ExnStr (KeyError ''recommendation'')],
     Expander [Lit ''Error Details''] [Code [FormatExc (KeyError ''recommendation'')]]])"
proof -
  have raised: "display_response [(''success'', PBool True)] =
      ([HtmlBox ''success-box'' [Emo CheckMark, Lit '' Analysis Complete'']],
       Some (KeyError ''recommendation''))"
    by (simp add: display_response_def display_success_def display_metrics_def dict_get_def
          dict_item_def need_def andthen_def emit_def raise_def)
  show ?thesis
    using submission_exception_caught
      [where s = "\<lparr>system = Some \<lparr>sys_id = 0, config = [], assistant = ()\<rparr>, chat_history = [],
            initialized = True, current_query = None\<rparr>"
         and B = "\<lparr>construct = (\<lambda>env. Inr []), create_assistant = (\<lambda>cfg. Inr ()),
            process_query_sync = (\<lambda>sys q. (Inr [(''success'', PBool True)], sys))\<rparr>"
         and now = "\<lparr>year = 2024, month = 3, day = 9, hour = 14, minute = 5, second = 7, microsecond = 0\<rparr>"
         and q = "''Analyze Tesla stock''"
         and sys = "\<lparr>sys_id = 0, config = [], assistant = ()\<rparr>"
         and sys' = "\<lparr>sys_id = 0, config = [], assistant = ()\<rparr>"
         and r = "[(''success'', PBool True)]"
         and e = "KeyError ''recommendation''"]
    by (simp add: raised)
qed

subsection \<open>The cached backend\<close>

lemma body_cache: "resource_cache (snd (initialize_system_body B u l c w)) = resource_cache w"
  by (simp add: initialize_system_body_def Let_def split: sum.split split del: if_split)

lemma body_constructed: "constructed (snd (initialize_system_body B u l c w)) = Suc (constructed w)"
  by (simp add: initialize_system_body_def Let_def split: sum.split split del: if_split)

lemma initialize_system_miss:
  "resource_cache w (u, l, c) = None \<Longrightarrow>
   initialize_system B u l c w =
     (fst (initialize_system_body B u l c w),
      (snd (initialize_system_body B u l c w))
        \<lparr>resource_cache := (resource_cache w)((u, l, c) \<mapsto> fst (initialize_system_body B u l c w))\<rparr>)"
  by (simp add: initialize_system_def split_beta body_cache)

lemma initialize_system_hit:
  "resource_cache w (u, l, c) = Some r \<Longrightarrow> initialize_system B u l c w = (r, w)"
  by (simp add: initialize_system_def)

lemma cache_kept:
  "resource_cache w k = Some r \<Longrightarrow> resource_cache (snd (initialize_system B u l c w)) k = Some r"
proof (cases "resource_cache w (u, l, c)")
  case None
  assume "resource_cache w k = Some r"
  with None have "k \<noteq> (u, l, c)" by auto
  with \<open>resource_cache w k = Some r\<close> show ?thesis
    by (simp add: initialize_system_miss [OF None])
next
  case (Some r')
  assume "resource_cache w k = Some r"
  then show ?thesis by (simp add: initialize_system_hit [OF Some])
qed

lemma cache_kept_calls:
  "resource_cache w k = Some r \<Longrightarrow> resource_cache (initialize_calls B ks w) k = Some r"
proof (induction ks arbitrary: w)
  case Nil
  then show ?case by simp
next
  case (Cons a ks)
  obtain u l c where a: "a = (u, l, c)" by (cases a) auto
  show ?case
    using Cons.IH [OF cache_kept [OF Cons.prems]] by (simp add: a)
qed

lemma cache_filled:
  "resource_cache (snd (initialize_system B u l c w)) (u, l, c) = Some (fst (initialize_system B u l c w))"
proof (cases "resource_cache w (u, l, c)")
  case None
  show ?thesis by (simp add: initialize_system_miss [OF None])
next
  case (Some r')
  show ?thesis by (simp add: initialize_system_hit [OF Some] Some)
qed

text \<open>
  C6. After a call of \<open>initialize_system\<close> has returned \<open>r\<close>, a later call with the
  same three arguments, whatever calls with other arguments came in between, returns
  the same \<open>r\<close> (the same instance, when there is one) and leaves the world as it is:
  nothing is constructed. The body runs, and constructs, only when the three arguments
  are not in the table.
\<close>

theorem initialize_system_cached:
  assumes "initialize_system B u l c w = (r, w1)"
  shows "initialize_system B u l c (initialize_calls B ks w1) = (r, initialize_calls B ks w1) \<and>
         (resource_cache w (u, l, c) = None \<longrightarrow> constructed w1 = Suc (constructed w)) \<and>
         (resource_cache w (u, l, c) \<noteq> None \<longrightarrow> w1 = w)"
proof -
  from assms cache_filled [of B u l c w] have "resource_cache w1 (u, l, c) = Some r"
    by simp
  then have "resource_cache (initialize_calls B ks w1) (u, l, c) = Some r"
    by (rule cache_kept_calls)
  then have again: "initialize_system B u l c (initialize_calls B ks w1) = (r, initialize_calls B ks w1)"
    by (rule initialize_system_hit)
  have miss: "resource_cache w (u, l, c) = None \<longrightarrow> constructed w1 = Suc (constructed w)"
  proof
    assume none: "resource_cache w (u, l, c) = None"
    from assms have "w1 = snd (initialize_system B u l c w)" by simp
    then show "constructed w1 = Suc (constructed w)"
      by (simp add: initialize_system_miss [OF none] body_constructed)
  qed
  have hit: "resource_cache w (u, l, c) \<noteq> None \<longrightarrow> w1 = w"
  proof
    assume "resource_cache w (u, l, c) \<noteq> None"
    then obtain r' where "resource_cache w (u, l, c) = Some r'" by auto
    from initialize_system_hit [OF this, of B] assms show "w1 = w" by simp
  qed
  show ?thesis using again miss hit by blast
qed


theorem initialize_system_cached_witness:
  "initialize_system
     \<lparr>construct = (\<lambda>env. Inr [(''use_qdrant'', PBool True)]), create_assistant = (\<lambda>cfg. Inr ()),
      process_query_sync = (\<lambda>sys q. (Inr [], sys))\<rparr>
     True True ''trading_knowledge''
     (initialize_calls
        \<lparr>construct = (\<lambda>env. Inr [(''use_qdrant'', PBool True)]), create_assistant = (\<lambda>cfg. Inr ()),
         process_query_sync = (\<lambda>sys q. (Inr [], sys))\<rparr>
        [(False, True, ''other'')]
        (snd (initialize_system
           \<lparr>construct = (\<lambda>env. Inr [(''use_qdrant'', PBool True)]), create_assistant = (\<lambda>cfg. Inr ()),
            process_query_sync = (\<lambda>sys q. (Inr [], sys))\<rparr>
           True True ''trading_knowledge''
           \<lparr>environ = [], constructed = 0, resource_cache = (\<lambda>k. None)\<rparr>))) =
   (fst (initialize_system
           \<lparr>construct = (\<lambda>env. Inr [(''use_qdrant'', PBool True)]), create_assistant = (\<lambda>cfg. Inr ()),
            process_query_sync = (\<lambda>sys q. (Inr [], sys))\<rparr>
           True True ''trading_knowledge''
           \<lparr>environ = [], constructed = 0, resource_cache = (\<lambda>k. None)\<rparr>),
    initialize_calls
        \<lparr>construct = (\<lambda>env. Inr [(''use_qdrant'', PBool True)]), create_assistant = (\<lambda>cfg. Inr ()),
         process_query_sync = (\<lambda>sys q. (Inr [], sys))\<rparr>
        [(False, True, ''other'')]
        (snd (initialize_system
           \<lparr>construct = (\<lambda>env. Inr [(''use_qdrant'', PBool True)]), create_assistant = (\<lambda>cfg. Inr ()),
            process_query_sync = (\<lambda>sys q. (Inr [], sys))\<rparr>
           True True ''trading_knowledge''
           \<lparr>environ = [], constructed = 0, resource_cache = (\<lambda>k. None)\<rparr>))) \<and>
   constructed
     (snd (initialize_system
           \<lparr>construct = (\<lambda>env. Inr [(''use_qdrant'', PBool True)]), create_assistant = (\<lambda>cfg. Inr ()),
            process_query_sync = (\<lambda>sys q. (Inr [], sys))\<rparr>
           True True ''trading_knowledge''
           \<lparr>environ = [], constructed = 0, resource_cache = (\<lambda>k. None)\<rparr>)) = Suc 0"
  using initialize_system_cached
    [where B = "\<lparr>construct = (\<lambda>env. Inr [(''use_qdrant'', PBool True)]), create_assistant = (\<lambda>cfg. Inr ()),
                 process_query_sync = (\<lambda>sys q. (Inr [], sys))\<rparr>"
       and u = True and l = True and c = "''trading_knowledge''"
       and w = "\<lparr>environ = [], constructed = 0, resource_cache = (\<lambda>k. None)\<rparr>"
       and ks = "[(False, True, ''other'')]", OF prod.collapse [symmetric]]
  by simp

subsection \<open>The recent queries\<close>

lemma foreach_shown:
  assumes "\<And>x. concat (map obs (fst (f x))) = [g x]"
  shows "prefix (concat (map obs (fst (foreach f xs)))) (map g xs) \<and>
         (snd (foreach f xs) = None \<longrightarrow> concat (map obs (fst (foreach f xs))) = map g xs)"
proof (induction xs)
  case Nil
  show ?case by (simp add: emit_simps)
next
  case (Cons x xs)
  show ?case
  proof (cases "snd (f x)")
    case None
    then show ?thesis
      using Cons.IH assms [of x] by (simp add: fst_andthen snd_andthen)
  next
    case (Some e)
    then show ?thesis
      using assms [of x] by (simp add: fst_andthen snd_andthen)
  qed
qed

lemma recent_entry_shown: "concat (map recent_shown (fst (recent_entry c))) = [query c]"
  by (simp add: recent_entry_def expander_def andthen_emit)

lemma length_last5: "length (last5 h) = min 5 (length h)"
  by (simp add: last5_def)

text \<open>
  C8. The recent queries panel shows records of \<open>last5 h\<close> only, the last
  \<open>min 5 (length h)\<close> records of the history, most recent first: the queries its
  expanders open with are an initial part of those records' queries in reverse order,
  never more than five, and all of them when no entry raises.
\<close>

theorem recent_queries_last_five:
  "prefix (concat (map recent_shown (fst (recent_queries h)))) (map query (rev (last5 h))) \<and>
   (snd (recent_queries h) = None \<longrightarrow>
      concat (map recent_shown (fst (recent_queries h))) = map query (rev (last5 h))) \<and>
   length (concat (map recent_shown (fst (recent_queries h)))) \<le> 5 \<and>
   length (last5 h) = min 5 (length h) \<and>
   take (length h - 5) h @ last5 h = h"
proof -
  let ?shown = "concat (map recent_shown (fst (recent_queries h)))"
  have each: "prefix (concat (map recent_shown (fst (foreach recent_entry (rev (last5 h))))))
                (map query (rev (last5 h))) \<and>
              (snd (foreach recent_entry (rev (last5 h))) = None \<longrightarrow>
               concat (map recent_shown (fst (foreach recent_entry (rev (last5 h))))) =
               map query (rev (last5 h)))"
    by (rule foreach_shown) (rule recent_entry_shown)
  have empty: "h = [] \<Longrightarrow> last5 h = []"
    by (simp add: last5_def)
  have a: "prefix ?shown (map query (rev (last5 h)))"
    using each empty by (simp add: recent_queries_def andthen_emit emit_simps)
  have b: "snd (recent_queries h) = None \<longrightarrow> ?shown = map query (rev (last5 h))"
    using each empty by (simp add: recent_queries_def andthen_emit emit_simps)
  from a have "length ?shown \<le> length (map query (rev (last5 h)))"
    by (rule prefix_length_le)
  then have c: "length ?shown \<le> 5"
    by (simp add: length_last5)
  have d: "take (length h - 5) h @ last5 h = h"
    by (simp add: last5_def)
  show ?thesis using a b c d length_last5 by blast
qed


theorem recent_queries_last_five_witness:
  "concat (map recent_shown (fst (recent_queries
     (map (\<lambda>q. \<lparr>timestamp = \<lparr>year = 2024, month = 3, day = 9, hour = 14, minute = 5,
                                second = 7, microsecond = 0\<rparr>,
                   query = q, response = [(''success'', PBool False)]\<rparr>)
        [''q1'', ''q2'', ''q3'', ''q4'', ''q5'', ''q6''])))) =
   [''q6'', ''q5'', ''q4'', ''q3'', ''q2'']"
  using recent_queries_last_five
    [of "map (\<lambda>q. \<lparr>timestamp = \<lparr>year = 2024, month = 3, day = 9, hour = 14, minute = 5,
                                second = 7, microsecond = 0\<rparr>,
                   query = q, response = [(''success'', PBool False)]\<rparr>)
        [''q1'', ''q2'', ''q3'', ''q4'', ''q5'', ''q6'']"]
  by (simp add: recent_queries_def last5_def recent_entry_def expander_def andthen_def emit_def
        dict_get_def)

subsection \<open>The chat history\<close>















subsection \<open>Rounding to a double\<close>

lemma floor_log2_le:
  assumes "0 < a"
  shows "2 powi (floor_log2 a) \<le> a"
proof -
  obtain p q where pq: "quotient_of a = (p, q)" by (cases "quotient_of a")
  have q: "0 < q" using pq by (rule quotient_of_denom_pos)
  have a: "a = of_int p / of_int q" using pq by (rule quotient_of_div)
  from assms q have p: "0 < p"
    unfolding a by (simp add: zero_less_divide_iff)
  define d where "d = bitlen p - bitlen q"
  show ?thesis
  proof (cases "2 powi d \<le> a")
    case True
    then show ?thesis by (simp add: floor_log2_def pq d_def Let_def)
  next
    case False
    have bp: "1 \<le> bitlen p" and bq: "1 \<le> bitlen q"
      using p q by (simp_all add: bitlen_alt_def)
    have lo: "(2::int) ^ nat (bitlen p - 1) \<le> p"
      using bitlen_bounds [OF p] by simp
    have hi: "q < (2::int) ^ nat (bitlen q)"
      using bitlen_bounds [OF q] by simp
    have lo': "(2::rat) powi (bitlen p - 1) \<le> of_int p"
    proof -
      have "(of_int ((2::int) ^ nat (bitlen p - 1)) :: rat) \<le> of_int p"
        using lo by (simp only: of_int_le_iff)
      then show ?thesis using bp by (simp add: power_int_def)
    qed
    have hi': "(of_int q :: rat) \<le> 2 powi (bitlen q)"
    proof -
      have "(of_int q :: rat) < of_int ((2::int) ^ nat (bitlen q))"
        using hi by (simp only: of_int_less_iff)
      then show ?thesis using bq by (simp add: power_int_def)
    qed
    have e: "d - 1 = (bitlen p - 1) - bitlen q"
      by (simp add: d_def)
    have "(2::rat) powi (d - 1) = 2 powi (bitlen p - 1) / 2 powi (bitlen q)"
      unfolding e by (rule power_int_diff) simp
    also have "\<dots> \<le> of_int p / 2 powi (bitlen q)"
      by (rule divide_right_mono [OF lo']) simp
    also have "\<dots> \<le> of_int p / of_int q"
      by (rule divide_left_mono [OF hi']) (use p q in simp_all)
    finally have "(2::rat) powi (d - 1) \<le> a" unfolding a .
    with False show ?thesis by (simp add: floor_log2_def pq d_def Let_def)
  qed
qed

lemma floor_log2_bound:
  assumes "0 < a" "a \<le> 2 powi k" "0 \<le> k"
  shows "floor_log2 a \<le> k"
proof -
  have le: "(2::rat) powi (floor_log2 a) \<le> 2 powi k"
    using floor_log2_le [OF assms(1)] assms(2) by (rule order_trans)
  have gt: "1 < (2::rat)" by simp
  show ?thesis
    by (rule power_int_le_imp_le_exp [OF gt le assms(3)])
qed

lemma round_half_even_near: "\<bar>of_int (round_half_even x) - x\<bar> \<le> 1 / 2"
proof -
  define f where "f = \<lfloor>x\<rfloor>"
  define r where "r = x - of_int f"
  have r0: "0 \<le> r" and r1: "r < 1"
    unfolding r_def f_def by linarith+
  have xe: "x = of_int f + r"
    unfolding r_def by simp
  have rt: "round_half_even x = (if r < 1 / 2 then f else if 1 / 2 < r then f + 1
                              else if even f then f else f + 1)"
    unfolding round_half_even_def Let_def f_def [symmetric] r_def [symmetric] by simp
  have "\<bar>of_int (round_half_even x) - (of_int f + r)\<bar> \<le> 1 / 2"
    unfolding rt using r0 r1 by (auto simp add: abs_if)
  then show ?thesis
    by (simp only: xe)
qed

lemma round_half_even_nonneg: "0 \<le> x \<Longrightarrow> 0 \<le> round_half_even x"
proof -
  assume "0 \<le> x"
  then have "0 \<le> \<lfloor>x\<rfloor>" by simp
  then show ?thesis
    by (simp add: round_half_even_def Let_def)
qed

lemma round_double_near:
  assumes a: "0 < a" and ak: "a \<le> 2 powi k" and k0: "0 \<le> k" and k1: "k \<le> 1000"
  shows "\<exists>y. round_double a = Finite y \<and> 0 \<le> y \<and> \<bar>y - a\<bar> \<le> 2 powi (k - 53)"
proof -
  define e where "e = max (floor_log2 a - 52) (- 1074)"
  define P :: rat where "P = 2 powi e"
  define m where "m = round_half_even (a / P)"
  define y :: rat where "y = of_int m * P"
  have fl: "floor_log2 a \<le> k"
    by (rule floor_log2_bound [OF a ak k0])
  have e: "e \<le> k - 52"
    unfolding e_def using fl k0 by simp
  have P0: "0 < P"
    unfolding P_def by simp
  have "P \<le> 2 powi (k - 52)"
    unfolding P_def by (rule power_int_increasing [OF e]) simp
  also have "(2::rat) powi (k - 52) = 2 * 2 powi (k - 53)"
    using power_int_add [of "2::rat" 1 "k - 53"] by simp
  finally have P2: "P / 2 \<le> 2 powi (k - 53)"
    by simp
  have m0: "0 \<le> m"
    unfolding m_def using a P0 by (intro round_half_even_nonneg) simp
  have y0: "0 \<le> y"
    unfolding y_def using m0 P0 by simp
  have "\<bar>of_int m - a / P\<bar> \<le> 1 / 2"
    unfolding m_def by (rule round_half_even_near)
  then have "\<bar>of_int m - a / P\<bar> * P \<le> 1 / 2 * P"
    using P0 by (intro mult_right_mono) simp_all
  moreover have "\<bar>of_int m - a / P\<bar> * P = \<bar>y - a\<bar>"
  proof -
    have "\<bar>of_int m - a / P\<bar> * P = \<bar>(of_int m - a / P) * P\<bar>"
      using P0 by (simp add: abs_mult)
    also have "(of_int m - a / P) * P = y - a"
      using P0 by (simp add: y_def algebra_simps)
    finally show ?thesis .
  qed
  ultimately have near: "\<bar>y - a\<bar> \<le> P / 2"
    by simp
  with P2 have bound: "\<bar>y - a\<bar> \<le> 2 powi (k - 53)"
    by linarith
  have "(2::rat) powi (k - 53) \<le> 2 powi k"
    by (rule power_int_increasing) simp_all
  with bound ak have "y \<le> 2 powi k + 2 powi k"
    by linarith
  also have "(2::rat) powi k + 2 powi k = 2 powi (k + 1)"
    using power_int_add [of "2::rat" k 1] by simp
  also have "\<dots> \<le> 2 powi 1001"
    by (rule power_int_increasing) (use k1 in simp_all)
  also have "\<dots> < (2::rat) ^ 1024"
    by simp
  finally have noover: "\<not> 2 ^ 1024 \<le> y"
    by simp
  have "round_double a = Finite y"
    using a noover
    by (simp add: round_double_def Let_def e_def [symmetric] P_def [symmetric]
          m_def [symmetric] y_def [symmetric])
  with y0 bound show ?thesis by blast
qed

lemma abs_scale_100:
  fixes q r e :: rat
  assumes "\<bar>q - r\<bar> \<le> e"
  shows "\<bar>q * 100 - r * 100\<bar> \<le> 100 * e"
  using assms by linarith

lemma abs_triangle_two:
  fixes p q r d e :: rat
  assumes "\<bar>p - q\<bar> \<le> d" "\<bar>q - r\<bar> \<le> e"
  shows "\<bar>p - r\<bar> \<le> d + e"
  using assms by linarith

lemma abs_upper:
  fixes q r e :: rat
  assumes "\<bar>q - r\<bar> \<le> e" "r \<le> 1"
  shows "q \<le> 1 + e"
  using assms by linarith

lemma int_truediv_unit:
  assumes "k \<le> n" "0 < n"
  shows "\<exists>q. int_truediv (int k) n = Inr (Finite q) \<and> 0 \<le> q \<and>
             \<bar>q - of_nat k / of_nat n\<bar> \<le> 2 powi (- 53)"
proof (cases "k = 0")
  case True
  with assms(2) show ?thesis
    by (simp add: int_truediv_def round_double_def)
next
  case False
  define a :: rat where "a = of_nat k / of_nat n"
  have a0: "0 < a" unfolding a_def using False assms(2) by simp
  have a1: "a \<le> 2 powi 0" unfolding a_def using assms by simp
  from round_double_near [OF a0 a1] obtain q where
      q: "round_double a = Finite q" "0 \<le> q" "\<bar>q - a\<bar> \<le> 2 powi (0 - 53)"
    by auto
  have "int_truediv (int k) n = Inr (Finite q)"
    using assms(2) q(1) by (simp add: int_truediv_def a_def)
  with q show ?thesis unfolding a_def by auto
qed

lemma fmul_100:
  assumes "0 \<le> q" "q \<le> 1 + 2 powi (- 53)"
  shows "\<exists>p. fmul (Finite q) (Finite 100) = Finite p \<and> 0 \<le> p \<and>
             \<bar>p - q * 100\<bar> \<le> 2 powi (- 46)"
proof (cases "q = 0")
  case True
  then show ?thesis
    by (simp add: fmul_def)
next
  case False
  with assms(1) have a0: "0 < q * 100" by simp
  have "q * 100 \<le> (1 + 2 powi (- 53)) * 100"
    using assms(2) by simp
  also have "\<dots> \<le> (2::rat) powi 7"
    by simp
  finally have a1: "q * 100 \<le> 2 powi 7" .
  from round_double_near [OF a0 a1] obtain p where
      p: "round_double (q * 100) = Finite p" "0 \<le> p" "\<bar>p - q * 100\<bar> \<le> 2 powi (7 - 53)"
    by auto
  have "fmul (Finite q) (Finite 100) = Finite p"
    using False p(1) by (simp add: fmul_def)
  with p show ?thesis by auto
qed

lemma success_rate_value:
  assumes "h \<noteq> []" "length cs \<le> length h"
  shows "\<exists>x. success_rate cs h = Inr (Inr (Finite x)) \<and> 0 \<le> x \<and>
             \<bar>x - of_nat (length cs) / of_nat (length h) * 100\<bar> \<le> 1 / 10 ^ 13"
proof -
  from assms(1) have n: "0 < length h" by simp
  from int_truediv_unit [OF assms(2) n] obtain q where
      q: "int_truediv (int (length cs)) (length h) = Inr (Finite q)" "0 \<le> q"
         "\<bar>q - of_nat (length cs) / of_nat (length h)\<bar> \<le> 2 powi (- 53)"
    by blast
  have "of_nat (length cs) / of_nat (length h) \<le> (1::rat)"
    using assms(2) n by simp
  with q(3) have q1: "q \<le> 1 + 2 powi (- 53)"
    by (rule abs_upper)
  from fmul_100 [OF q(2) q1] obtain p where
      p: "fmul (Finite q) (Finite 100) = Finite p" "0 \<le> p" "\<bar>p - q * 100\<bar> \<le> 2 powi (- 46)"
    by blast
  have rate: "success_rate cs h = Inr (Inr (Finite p))"
    using assms(1) by (simp add: success_rate_def q(1) p(1))
  have "\<bar>q * 100 - of_nat (length cs) / of_nat (length h) * 100\<bar> \<le> 100 * 2 powi (- 53)"
    using q(3) by (rule abs_scale_100)
  with p(3) have "\<bar>p - of_nat (length cs) / of_nat (length h) * 100\<bar>
      \<le> 2 powi (- 46) + 100 * 2 powi (- 53)"
    by (rule abs_triangle_two)
  also have "\<dots> \<le> (1::rat) / 10 ^ 13"
    by simp
  finally show ?thesis using rate p(2) by blast
qed

lemma format_1f_nonneg:
  "0 \<le> x \<Longrightarrow>
   format_1f (Finite x) =
     decimal (nat (round_half_even (x * 10) div 10)) @ ''.'' @
     [digit (nat (round_half_even (x * 10)))]"
  by (simp add: format_1f_def)

subsection \<open>The analysis tab\<close>

lemma int_truediv_round:
  assumes "k \<le> n" "0 < n"
  shows "int_truediv (int k) n = Inr (round_double (of_nat k / of_nat n))"
proof (cases "k = 0")
  case True
  with assms(2) show ?thesis
    by (simp add: int_truediv_def round_double_def)
next
  case False
  define a :: rat where "a = of_nat k / of_nat n"
  have a0: "0 < a" unfolding a_def using False assms(2) by simp
  have a1: "a \<le> 2 powi 0" unfolding a_def using assms by simp
  from round_double_near [OF a0 a1] obtain q where "round_double a = Finite q"
    by auto
  then show ?thesis
    using assms(2) by (simp add: int_truediv_def a_def)
qed

lemma successful_queries_length: "length (successful_queries h) \<le> length h"
  by (simp add: successful_queries_def)

lemma successful_queries_filter:
  "filter (\<lambda>c. case map_of (response c) ''success'' of None \<Rightarrow> False | Some x \<Rightarrow> truthy x) h =
   successful_queries h"
  unfolding successful_queries_def
  by (rule filter_cong) (auto simp add: dict_get_def split: option.splits)

lemma successful_queries_set:
  "set (successful_queries h) =
     {c \<in> set h. case map_of (response c) ''success'' of None \<Rightarrow> False | Some x \<Rightarrow> truthy x}"
  by (auto simp add: successful_queries_def dict_get_def split: option.splits)

lemma count_recommendation_error:
  "count_recommendation label cs = Inl e \<Longrightarrow> e = KeyError ''recommendation''"
  by (induction cs arbitrary: e)
     (auto simp add: dict_item_def split: option.splits sum.splits)

lemma int_to_float_error: "int_to_float i = Inl e \<Longrightarrow> e = OverflowError"
  by (auto simp add: int_to_float_def split: pyfloat.splits)

lemma int_truediv_error:
  "int_truediv a n = Inl e \<Longrightarrow> n \<noteq> 0 \<Longrightarrow> e = OverflowError"
  by (auto simp add: int_truediv_def split: pyfloat.splits)

lemma add_total_error: "add_total t v = Inl e \<Longrightarrow> e = TypeError \<or> e = OverflowError"
  by (auto simp add: add_total_def dest: int_to_float_error
        split: option.splits sum.splits total.splits)

lemma add_total_number: "add_total t v = Inr t' \<Longrightarrow> as_number v \<noteq> None"
  by (auto simp add: add_total_def split: option.splits)

lemma sum_confidence_error:
  "sum_confidence acc cs = Inl e \<Longrightarrow>
   e = KeyError ''confidence'' \<or> e = TypeError \<or> e = OverflowError"
proof (induction cs arbitrary: acc)
  case Nil
  then show ?case by simp
next
  case (Cons c cs)
  then show ?case
    by (auto simp add: dict_item_def dest: add_total_error split: option.splits sum.splits)
qed

lemma sum_confidence_numbers:
  "sum_confidence acc cs = Inr tot \<Longrightarrow>
   \<forall>c \<in> set cs. \<exists>x. map_of (response c) ''confidence'' = Some x \<and> as_number x \<noteq> None"
proof (induction cs arbitrary: acc)
  case Nil
  then show ?case by simp
next
  case (Cons c cs)
  from Cons.prems obtain v acc' where
      v: "map_of (response c) ''confidence'' = Some v"
      and add: "add_total acc v = Inr acc'"
      and rest: "sum_confidence acc' cs = Inr tot"
    by (auto simp add: dict_item_def split: option.splits sum.splits)
  from add_total_number [OF add] v Cons.IH [OF rest] show ?case
    by simp
qed

lemma total_truediv_error:
  "total_truediv t n = Some e \<Longrightarrow> n \<noteq> 0 \<Longrightarrow> e = OverflowError"
  by (auto simp add: total_truediv_def dest: int_truediv_error int_to_float_error
        split: total.splits sum.splits if_splits)

lemma average_confidence_metric:
  assumes "Metric [Lit ''Average Confidence''] v \<in> set (fst (average_confidence cs))"
  shows "(\<forall>c \<in> set cs. \<exists>x. map_of (response c) ''confidence'' = Some x \<and> as_number x \<noteq> None) \<and>
         v = [Mean1 (map (\<lambda>c. dict_get (response c) ''confidence'' PNone) cs) (length cs),
              Lit ''%'']"
proof (cases "sum_confidence (IntTotal 0) cs")
  case (Inl e)
  with assms show ?thesis
    by (simp add: average_confidence_def need_simps raise_simps)
next
  case (Inr tot)
  note nums = sum_confidence_numbers [OF Inr]
  show ?thesis
  proof (cases "total_truediv tot (length cs)")
    case None
    with assms Inr nums show ?thesis
      by (simp add: average_confidence_def need_simps emit_simps)
  next
    case (Some e)
    with assms Inr show ?thesis
      by (simp add: average_confidence_def need_simps raise_simps)
  qed
qed

lemma average_confidence_exn:
  assumes "cs \<noteq> []"
  shows "snd (average_confidence cs) \<noteq> Some ZeroDivisionError"
proof (cases "sum_confidence (IntTotal 0) cs")
  case (Inl e)
  with sum_confidence_error [OF Inl] show ?thesis
    by (auto simp add: average_confidence_def need_simps raise_simps)
next
  case (Inr tot)
  show ?thesis
  proof (cases "total_truediv tot (length cs)")
    case None
    with Inr show ?thesis
      by (simp add: average_confidence_def need_simps emit_simps)
  next
    case (Some e)
    with total_truediv_error [OF Some] assms have "e = OverflowError"
      by simp
    with Some Inr show ?thesis
      by (simp add: average_confidence_def need_simps raise_simps)
  qed
qed

lemma average_confidence_labels:
  "[Lit ''Success Rate''] \<notin> set (concat (map metric_labels (fst (average_confidence cs))))"
  by (cases "sum_confidence (IntTotal 0) cs"; cases "total_truediv (projr (sum_confidence (IntTotal 0) cs)) (length cs)")
     (simp_all add: average_confidence_def need_simps raise_simps emit_simps)

lemma recommendation_distribution_cases:
  "recommendation_distribution cs =
          ([Markdown [Lit ''#### '', Emo BarChart, Lit '' Recommendation Distribution'']],
           Some (KeyError ''recommendation'')) \<or>
   (\<exists>b s h. recommendation_distribution cs =
          ([Markdown [Lit ''#### '', Emo BarChart, Lit '' Recommendation Distribution''],
            MetricObj [Emo GreenCircle, Lit '' BUY''] (PInt b),
            MetricObj [Emo RedCircle, Lit '' SELL''] (PInt s),
            MetricObj [Emo YellowCircle, Lit '' HOLD''] (PInt h)] @ fst (average_confidence cs),
           snd (average_confidence cs)))"
proof (cases "count_recommendation ''BUY'' cs")
  case (Inl e)
  with count_recommendation_error [OF Inl] show ?thesis
    by (simp add: recommendation_distribution_def andthen_emit need_simps raise_simps)
next
  case b: (Inr b)
  show ?thesis
  proof (cases "count_recommendation ''SELL'' cs")
    case (Inl e)
    with count_recommendation_error [OF Inl] b show ?thesis
      by (simp add: recommendation_distribution_def andthen_emit need_simps raise_simps)
  next
    case s: (Inr s)
    show ?thesis
    proof (cases "count_recommendation ''HOLD'' cs")
      case (Inl e)
      with count_recommendation_error [OF Inl] b s show ?thesis
        by (simp add: recommendation_distribution_def andthen_emit need_simps raise_simps)
    next
      case (Inr h)
      with b s show ?thesis
        by (simp add: recommendation_distribution_def andthen_emit need_simps)
    qed
  qed
qed

lemma success_rate_round:
  assumes "h \<noteq> []" "length cs \<le> length h"
  shows "success_rate cs h =
           Inr (Inr (fmul (round_double (of_nat (length cs) / of_nat (length h))) (Finite 100)))"
  using assms by (simp add: success_rate_def int_truediv_round)

lemma analysis_tab_nonempty:
  "h \<noteq> [] \<Longrightarrow>
   analysis_tab h =
     ([Markdown [Lit ''### '', Emo ChartUp, Lit '' Analysis Dashboard''],
       MetricObj [Lit ''Total Queries''] (PInt (int (length h))),
       MetricObj [Lit ''Successful''] (PInt (int (length (successful_queries h)))),
       Metric [Lit ''Success Rate'']
         [Fixed1 (format_1f (fmul (round_double (of_nat (length (successful_queries h)) /
                                                 of_nat (length h))) (Finite 100))),
          Lit ''%'']] @
      (if successful_queries h \<noteq> [] then fst (recommendation_distribution (successful_queries h))
       else []),
      (if successful_queries h \<noteq> [] then snd (recommendation_distribution (successful_queries h))
       else None))"
  by (simp add: analysis_tab_def andthen_emit success_rate_round successful_queries_length
        format_number_1f_def need_simps emit_simps)

lemma analysis_tab_empty:
  "analysis_tab [] =
     ([Markdown [Lit ''### '', Emo ChartUp, Lit '' Analysis Dashboard''],
       Info [Emo BarChart, Lit '' No analysis data yet. Start by asking some trading questions!'']],
      None)"
  by (simp add: analysis_tab_def andthen_emit emit_simps)

lemma tenths_near:
  fixes x r :: rat
  assumes "\<bar>x - r\<bar> \<le> 1 / 10 ^ 13"
  shows "\<bar>of_int (round_half_even (x * 10)) / 10 - r\<bar> \<le> 1 / 20 + 1 / 10 ^ 13"
proof -
  have "\<bar>of_int (round_half_even (x * 10)) - x * 10\<bar> \<le> 1 / 2"
    by (rule round_half_even_near)
  then have "\<bar>of_int (round_half_even (x * 10)) / 10 - x\<bar> \<le> 1 / 20"
    by linarith
  with assms show ?thesis
    by linarith
qed

text \<open>
  C10. The analysis tab never raises \<open>ZeroDivisionError\<close>. A history with no successful
  record shows no Average Confidence metric. When the metric is shown there is a
  successful record, every successful record has a number as confidence, and the value
  is the mean of the confidences of the successful records, in their order, over the
  number of successful records. The successful records are the records of the history
  whose \<open>success\<close> is truthy.
\<close>

theorem average_confidence_guarded:
  "snd (analysis_tab h) \<noteq> Some ZeroDivisionError \<and>
   (successful_queries h = [] \<longrightarrow>
      [Lit ''Average Confidence''] \<notin> set (concat (map metric_labels (fst (analysis_tab h))))) \<and>
   (Metric [Lit ''Average Confidence''] v \<in> set (fst (analysis_tab h)) \<longrightarrow>
      successful_queries h \<noteq> [] \<and>
      (\<forall>c \<in> set (successful_queries h).
         \<exists>x. map_of (response c) ''confidence'' = Some x \<and> as_number x \<noteq> None) \<and>
      v = [Mean1 (map (\<lambda>c. dict_get (response c) ''confidence'' PNone) (successful_queries h))
             (length (successful_queries h)),
           Lit ''%'']) \<and>
   set (successful_queries h) =
     {c \<in> set h. case map_of (response c) ''success'' of None \<Rightarrow> False | Some x \<Rightarrow> truthy x}"
proof (cases "h = []")
  case True
  then show ?thesis
    by (simp add: analysis_tab_empty successful_queries_def)
next
  case False
  note tab = analysis_tab_nonempty [OF False]
  show ?thesis
  proof (cases "successful_queries h = []")
    case True
    then show ?thesis
      by (simp add: tab successful_queries_set [symmetric])
  next
    case ne: False
    let ?cs = "successful_queries h"
    have exn: "snd (analysis_tab h) \<noteq> Some ZeroDivisionError"
      using recommendation_distribution_cases [of ?cs] average_confidence_exn [OF ne]
      by (auto simp add: tab ne)
    have met: "Metric [Lit ''Average Confidence''] v \<in> set (fst (analysis_tab h)) \<longrightarrow>
        Metric [Lit ''Average Confidence''] v \<in> set (fst (average_confidence ?cs))"
      using recommendation_distribution_cases [of ?cs]
      by (auto simp add: tab ne)
    show ?thesis
      using exn met average_confidence_metric [of v ?cs] ne successful_queries_set [of h]
      by blast
  qed
qed

theorem average_confidence_guarded_witness:
  "Metric [Lit ''Average Confidence''] [Mean1 [PFloat (Finite (171 / 2)), PInt 70] 2, Lit ''%'']
     \<in> set (fst (analysis_tab
     [\<lparr>timestamp = \<lparr>year = 2024, month = 3, day = 9, hour = 14, minute = 5, second = 7,
                     microsecond = 0\<rparr>,
       query = ''Should I buy Apple stock?'',
       response = [(''success'', PBool True), (''recommendation'', PStr ''BUY''),
                   (''confidence'', PFloat (Finite (171 / 2)))]\<rparr>,
      \<lparr>timestamp = \<lparr>year = 2024, month = 3, day = 9, hour = 14, minute = 6, second = 0,
                     microsecond = 0\<rparr>,
       query = ''Analyze Tesla stock'',
       response = [(''success'', PBool False), (''confidence'', PInt 10)]\<rparr>,
      \<lparr>timestamp = \<lparr>year = 2024, month = 3, day = 9, hour = 14, minute = 7, second = 30,
                     microsecond = 0\<rparr>,
       query = ''Is Microsoft a hold?'',
       response = [(''success'', PInt 1), (''recommendation'', PStr ''HOLD''),
                   (''confidence'', PInt 70)]\<rparr>])) \<and>
   length (successful_queries
     [\<lparr>timestamp = \<lparr>year = 2024, month = 3, day = 9, hour = 14, minute = 5, second = 7,
                     microsecond = 0\<rparr>,
       query = ''Should I buy Apple stock?'',
       response = [(''success'', PBool True), (''recommendation'', PStr ''BUY''),
                   (''confidence'', PFloat (Finite (171 / 2)))]\<rparr>,
      \<lparr>timestamp = \<lparr>year = 2024, month = 3, day = 9, hour = 14, minute = 6, second = 0,
                     microsecond = 0\<rparr>,
       query = ''Analyze Tesla stock'',
       response = [(''success'', PBool False), (''confidence'', PInt 10)]\<rparr>,
      \<lparr>timestamp = \<lparr>year = 2024, month = 3, day = 9, hour = 14, minute = 7, second = 30,
                     microsecond = 0\<rparr>,
       query = ''Is Microsoft a hold?'',
       response = [(''success'', PInt 1), (''recommendation'', PStr ''HOLD''),
                   (''confidence'', PInt 70)]\<rparr>]) = 2"
  (is "?M \<in> set (fst (analysis_tab ?h)) \<and> _")
proof -
  have cs: "successful_queries ?h = [?h ! 0, ?h ! 2]"
    by (simp add: successful_queries_def dict_get_def)
  have "recommendation_distribution [?h ! 0, ?h ! 2] =
          ([Markdown [Lit ''#### '', Emo BarChart, Lit '' Recommendation Distribution''],
            MetricObj [Emo GreenCircle, Lit '' BUY''] (PInt 1),
            MetricObj [Emo RedCircle, Lit '' SELL''] (PInt 0),
            MetricObj [Emo YellowCircle, Lit '' HOLD''] (PInt 1), ?M], None)"
    by code_simp
  then have shown: "?M \<in> set (fst (analysis_tab ?h))"
    by (simp add: analysis_tab_nonempty cs)
  have "length (successful_queries ?h) = 2"
    by (simp add: cs)
  with shown average_confidence_guarded [of ?h "[Mean1 [PFloat (Finite (171 / 2)), PInt 70] 2, Lit ''%'']"]
  show ?thesis by blast
qed

text \<open>
  C2, as amended. For a history that is not empty the analysis tab shows, after the two
  counts, one Success Rate metric. Its text is the \<^verbatim>\<open>:.1f\<close> form of a double: the number
  of records with a truthy \<open>success\<close> divided by the number of records, rounded to a
  double, times 100, rounded to a double again. That double is not negative and at most
  \<open>1 / 10 ^ 13\<close> away from the exact percentage, so the number printed is at most half a
  tenth and \<open>1 / 10 ^ 13\<close> away from it. For the empty history the tab shows the
  information message and no metric.
\<close>

theorem success_rate_metric:
  "(h \<noteq> [] \<longrightarrow>
      (\<exists>x rest.
         fst (analysis_tab h) =
           [Markdown [Lit ''### '', Emo ChartUp, Lit '' Analysis Dashboard''],
            MetricObj [Lit ''Total Queries''] (PInt (int (length h))),
            MetricObj [Lit ''Successful'']
              (PInt (int (length (filter (\<lambda>c. case map_of (response c) ''success'' of
                                               None \<Rightarrow> False | Some x \<Rightarrow> truthy x) h)))),
            Metric [Lit ''Success Rate''] [Fixed1 (format_1f (Finite x)), Lit ''%'']] @ rest \<and>
         fmul (round_double
                 (of_nat (length (filter (\<lambda>c. case map_of (response c) ''success'' of
                                                None \<Rightarrow> False | Some x \<Rightarrow> truthy x) h)) /
                  of_nat (length h)))
              (Finite 100) = Finite x \<and>
         0 \<le> x \<and>
         format_1f (Finite x) =
           decimal (nat (round_half_even (x * 10) div 10)) @ ''.'' @
           [digit (nat (round_half_even (x * 10)))] \<and>
         \<bar>x -
           of_nat (length (filter (\<lambda>c. case map_of (response c) ''success'' of
                                         None \<Rightarrow> False | Some x \<Rightarrow> truthy x) h)) /
           of_nat (length h) * 100\<bar> \<le> 1 / 10 ^ 13 \<and>
         \<bar>(of_int (round_half_even (x * 10)) :: rat) / 10 -
           of_nat (length (filter (\<lambda>c. case map_of (response c) ''success'' of
                                         None \<Rightarrow> False | Some x \<Rightarrow> truthy x) h)) /
           of_nat (length h) * 100\<bar> \<le> 1 / 20 + 1 / 10 ^ 13 \<and>
         [Lit ''Success Rate''] \<notin> set (concat (map metric_labels rest)))) \<and>
   (h = [] \<longrightarrow>
      analysis_tab h =
        ([Markdown [Lit ''### '', Emo ChartUp, Lit '' Analysis Dashboard''],
          Info [Emo BarChart,
                Lit '' No analysis data yet. Start by asking some trading questions!'']],
         None))"
proof (cases "h = []")
  case True
  then show ?thesis
    by (simp add: analysis_tab_empty)
next
  case False
  let ?cs = "successful_queries h"
  let ?rest = "if ?cs \<noteq> [] then fst (recommendation_distribution ?cs) else []"
  from success_rate_value [OF False successful_queries_length] obtain x where
      rate: "success_rate ?cs h = Inr (Inr (Finite x))"
      and x0: "0 \<le> x"
      and near: "\<bar>x - of_nat (length ?cs) / of_nat (length h) * 100\<bar> \<le> 1 / 10 ^ 13"
    by blast
  from rate have prod: "fmul (round_double (of_nat (length ?cs) / of_nat (length h))) (Finite 100)
      = Finite x"
    by (simp add: success_rate_round [OF False successful_queries_length])
  have tab: "fst (analysis_tab h) =
      [Markdown [Lit ''### '', Emo ChartUp, Lit '' Analysis Dashboard''],
       MetricObj [Lit ''Total Queries''] (PInt (int (length h))),
       MetricObj [Lit ''Successful''] (PInt (int (length ?cs))),
       Metric [Lit ''Success Rate''] [Fixed1 (format_1f (Finite x)), Lit ''%'']] @ ?rest"
    by (simp add: analysis_tab_nonempty [OF False] prod)
  have labels: "[Lit ''Success Rate''] \<notin> set (concat (map metric_labels ?rest))"
  proof (cases "?cs = []")
    case True
    then show ?thesis by simp
  next
    case ne: False
    show ?thesis
      using recommendation_distribution_cases [of ?cs] average_confidence_labels [of ?cs] ne
      by auto
  qed
  note tenths = tenths_near [OF near]
  note shown = format_1f_nonneg [OF x0]
  show ?thesis
    unfolding successful_queries_filter
    apply (intro conjI impI exI [of _ x] exI [of _ ?rest])
           apply (rule tab)
          apply (rule prod)
         apply (rule x0)
        apply (rule shown)
       apply (rule near)
      apply (rule tenths)
     apply (rule labels)
    using False by simp
qed

theorem success_rate_metric_witness:
  "Metric [Lit ''Success Rate''] [Fixed1 ''28.7'', Lit ''%''] \<in> set (fst (analysis_tab
     (replicate 23
        \<lparr>timestamp = \<lparr>year = 2024, month = 3, day = 9, hour = 14, minute = 5, second = 7,
                       microsecond = 0\<rparr>,
         query = ''Should I buy Apple stock?'',
         response = [(''success'', PBool True), (''recommendation'', PStr ''BUY''),
                     (''confidence'', PInt 85)]\<rparr> @
      replicate 57
        \<lparr>timestamp = \<lparr>year = 2024, month = 3, day = 9, hour = 14, minute = 6, second = 0,
                       microsecond = 0\<rparr>,
         query = ''Analyze Tesla stock'',
         response = [(''success'', PBool False), (''message'', PStr ''No data'')]\<rparr>)))"
  (is "?M \<in> set (fst (analysis_tab ?h))")
proof -
  have ne: "?h \<noteq> []"
    by simp
  have k: "length (filter (\<lambda>c. case map_of (response c) ''success'' of
                               None \<Rightarrow> False | Some x \<Rightarrow> truthy x) ?h) = 23"
    by simp
  have n: "length ?h = 80"
    by simp
  have printed: "format_1f (fmul (round_double (23 / 80)) (Finite 100)) = ''28.7''"
    by code_simp
  from success_rate_metric [of ?h] ne obtain x rest where
      tab: "fst (analysis_tab ?h) =
           [Markdown [Lit ''### '', Emo ChartUp, Lit '' Analysis Dashboard''],
            MetricObj [Lit ''Total Queries''] (PInt (int (length ?h))),
            MetricObj [Lit ''Successful'']
              (PInt (int (length (filter (\<lambda>c. case map_of (response c) ''success'' of
                                               None \<Rightarrow> False | Some x \<Rightarrow> truthy x) ?h)))),
            Metric [Lit ''Success Rate''] [Fixed1 (format_1f (Finite x)), Lit ''%'']] @ rest"
      and prod: "fmul (round_double
                 (of_nat (length (filter (\<lambda>c. case map_of (response c) ''success'' of
                                                None \<Rightarrow> False | Some x \<Rightarrow> truthy x) ?h)) /
                  of_nat (length ?h)))
              (Finite 100) = Finite x"
    by blast
  from prod have "fmul (round_double (23 / 80)) (Finite 100) = Finite x"
    by (simp only: k n of_nat_numeral)
  with printed have "format_1f (Finite x) = ''28.7''"
    by simp
  with tab show ?thesis
    by simp
qed

theorem success_rate_metric_counterexample:
  "[Lit ''Success Rate''] \<notin> set (concat (map metric_labels (fst (analysis_tab []))))"
  by (simp add: analysis_tab_def andthen_def emit_def)

subsection \<open>The exported history\<close>



















end
